theory Spec2Isabelle
  imports Main
begin

section \<open>JavaScript values\<close>

text \<open>
  A JavaScript \<^verbatim>\<open>number\<close> that can come out of \<^verbatim>\<open>parseInt\<close> is an integer or
  \<^verbatim>\<open>NaN\<close>. Numbers that are only compared and multiplied (connection states, sector
  counts, the debounce time) are modelled as \<open>int\<close>.
\<close>

datatype number = Num int | NaN

text \<open>
  \<^verbatim>\<open>String.prototype.replace(pattern, replacement)\<close> with a string pattern: only the
  first occurrence of the pattern is replaced; a string without the pattern is returned
  as it is. (The replacement \<^verbatim>\<open>'ws'\<close> has no \<^verbatim>\<open>$\<close> pattern.)
\<close>

fun js_replace :: "string \<Rightarrow> string \<Rightarrow> string \<Rightarrow> string" where
  "js_replace pat rep [] = (if pat = [] then rep else [])"
| "js_replace pat rep (c # cs) =
     (if take (length pat) (c # cs) = pat then rep @ drop (length pat) (c # cs)
      else c # js_replace pat rep cs)"

text \<open>
  \<^verbatim>\<open>parseInt(string)\<close> without a radix: leading white space is skipped, a sign is read,
  a prefix \<^verbatim>\<open>0x\<close> or \<^verbatim>\<open>0X\<close> selects radix 16 (radix 10 otherwise), and the longest run
  of digits of that radix is the value; no digit at all gives \<^verbatim>\<open>NaN\<close>.
\<close>

definition isWhiteSpace :: "char \<Rightarrow> bool" where
  "isWhiteSpace c = (c \<in> set [CHR 0x09, CHR 0x0A, CHR 0x0B, CHR 0x0C, CHR 0x0D, CHR 0x20])"

definition digitValue :: "char \<Rightarrow> nat option" where
  "digitValue c =
     (let n = (of_char c :: nat) in
      if 48 \<le> n \<and> n \<le> 57 then Some (n - 48)
      else if 97 \<le> n \<and> n \<le> 122 then Some (n - 87)
      else if 65 \<le> n \<and> n \<le> 90 then Some (n - 55)
      else None)"

fun parseDigits :: "nat \<Rightarrow> string \<Rightarrow> nat option \<Rightarrow> nat option" where
  "parseDigits R [] acc = acc"
| "parseDigits R (c # cs) acc =
     (case digitValue c of
        None \<Rightarrow> acc
      | Some d \<Rightarrow>
          if d < R
          then parseDigits R cs (Some ((case acc of None \<Rightarrow> 0 | Some a \<Rightarrow> a) * R + d))
          else acc)"

definition parseInt :: "string \<Rightarrow> number" where
  "parseInt str =
     (let S = dropWhile isWhiteSpace str;
          sign = (if take 1 S = ''-'' then - 1 else (1 :: int));
          S1 = (if take 1 S = ''-'' \<or> take 1 S = ''+'' then drop 1 S else S);
          hex = (take 2 S1 = ''0x'' \<or> take 2 S1 = ''0X'');
          R = (if hex then 16 else 10);
          S2 = (if hex then drop 2 S1 else S1)
      in case parseDigits R S2 None of None \<Rightarrow> NaN | Some m \<Rightarrow> Num (sign * int m))"

section \<open>The redirector configuration\<close>

text \<open>
  \<^verbatim>\<open>RedirectorConfig\<close> and \<^verbatim>\<open>Protocol\<close> are declared by the core library; the
  components fill every field in an object literal. The field \<^verbatim>\<open>fr\<close> (a fresh
  \<^verbatim>\<open>FileReader\<close>) carries no data and is left out.
\<close>

datatype Protocol = SOL | KVM | IDER

record RedirectorConfig =
  mode :: string
  protocol :: Protocol
  host :: string
  port :: nat
  user :: string
  pass :: string
  tls :: nat
  tls1only :: nat
  authToken :: string
  server :: string

text \<open>
  The props of the KVM component that its logic reads (\<^verbatim>\<open>KVMProps\<close>); the styling
  props are not read by any handler. \<^verbatim>\<open>authToken\<close> is a required string there; the
  field is named \<open>kvmAuthToken\<close> since \<open>authToken\<close> is the configuration's field.
\<close>

record KVMProps =
  deviceId :: "string option"
  mpsServer :: "string option"
  mouseDebounceTime :: int
  kvmAuthToken :: string

text \<open>The configuration literal of \<^verbatim>\<open>init\<close> in the KVM component.\<close>

definition kvmConfig :: "KVMProps \<Rightarrow> RedirectorConfig" where
  "kvmConfig p =
     (let deviceUuid = (case deviceId p of Some d \<Rightarrow> d | None \<Rightarrow> '''');
          srv = (case mpsServer p of Some m \<Rightarrow> js_replace ''http'' ''ws'' m | None \<Rightarrow> '''')
      in \<lparr>mode = ''kvm'', protocol = KVM, host = deviceUuid, port = 16994, user = '''',
          pass = '''', tls = 0, tls1only = 0, authToken = kvmAuthToken p, server = srv\<rparr>)"



section \<open>The KVM component\<close>

text \<open>
  \<^verbatim>\<open>src/components/kvm/UI.tsx\<close>. The objects of the core library are records that hold
  what the component gives their constructors and writes to their fields; every object
  gets a fresh identity, and every call of one of their methods is an entry of the
  trace. The callback fields that \<^verbatim>\<open>init\<close> wires between the objects of one graph
  (\<^verbatim>\<open>onProcessData\<close>, \<^verbatim>\<open>onStart\<close>, \<^verbatim>\<open>onNewState\<close>, \<^verbatim>\<open>onSendKvmData\<close>, \<^verbatim>\<open>onSend\<close>) stay inside
  the library and are not modelled; \<^verbatim>\<open>onStateChanged\<close> and \<^verbatim>\<open>onError\<close> are the two
  functions below that the library calls back.
\<close>

text \<open>
  A 2D drawing context, with what the component reads of it: \<^verbatim>\<open>canvas.height\<close> and
  \<^verbatim>\<open>canvas.width\<close>, the size of its canvas in pixels.
\<close>

record CanvasRenderingContext2D =
  ctxId :: nat
  canvasHeight :: int
  canvasWidth :: int

record Desktop =
  desktopId :: nat
  desktopCtx :: nat
  bpp :: number

record Redirector =
  redirectorId :: nat
  config :: RedirectorConfig

record DataProcessor =
  dataProcessorId :: nat
  dpRedirector :: nat
  dpDesktop :: nat

record MouseHelper =
  mouseHelperId :: nat
  mhDesktop :: nat
  mhRedirector :: nat
  debounceTime :: int

record KeyBoardHelper =
  keyboardId :: nat
  kbDesktop :: nat
  kbRedirector :: nat

datatype event =
    NewAMTDesktop nat
  | NewAMTKvmDataRedirector nat
  | NewDataProcessor nat
  | NewMouseHelper nat
  | NewKeyBoardHelper nat
  | RedirectorStart nat
  | RedirectorStop nat
  | GrabKeyInput nat
  | UnGrabKeyInput nat
  | ClearRect nat int int int int

text \<open>
  \<open>ClearRect c x y w h\<close> is the call \<^verbatim>\<open>clearRect(x, y, w, h)\<close> on the context
  \<open>c\<close>: it clears the rectangle of width \<open>w\<close> and height \<open>h\<close> at \<open>(x, y)\<close>.
\<close>

text \<open>The one callback the component hands to \<^verbatim>\<open>setTimeout\<close>.\<close>

datatype timer = RestartKVM

text \<open>
  The state of one mounted component: the two \<^verbatim>\<open>useState\<close> values, the refs, and the
  environment the handlers act on (the trace of calls into the library and the canvas,
  the clock in milliseconds, and the pending timers with the time each is due).
  \<^verbatim>\<open>initRef\<close> holds a closure of \<^verbatim>\<open>init\<close>: the props and the encoding option of the
  render that created it, or \<open>None\<close> for the initial \<^verbatim>\<open>() => {}\<close>.
\<close>

record KVMState =
  kvmstate :: int
  encodingOption :: number
  moduleRef :: "Desktop option"
  dataProcessorRef :: "DataProcessor option"
  redirectorRef :: "Redirector option"
  mouseHelperRef :: "MouseHelper option"
  keyboardRef :: "KeyBoardHelper option"
  desktopSettingsChangeRef :: bool
  ctxRef :: "CanvasRenderingContext2D option"
  prevDeviceIdRef :: "string option"
  initRef :: "(KVMProps \<times> number) option"
  nextId :: nat
  trace :: "event list"
  clock :: nat
  timers :: "(nat \<times> timer) list"

text \<open>
  The state at mount: \<^verbatim>\<open>useState(0)\<close>, \<^verbatim>\<open>useState(1)\<close>, every ref \<^verbatim>\<open>null\<close> or
  \<^verbatim>\<open>false\<close>, and \<^verbatim>\<open>prevDeviceIdRef\<close> initialised with the first \<^verbatim>\<open>deviceId\<close>.
\<close>

definition mountState :: "KVMProps \<Rightarrow> KVMState" where
  "mountState p =
     \<lparr>kvmstate = 0, encodingOption = Num 1, moduleRef = None, dataProcessorRef = None,
      redirectorRef = None, mouseHelperRef = None, keyboardRef = None,
      desktopSettingsChangeRef = False, ctxRef = None, prevDeviceIdRef = deviceId p,
      initRef = None, nextId = 0, trace = [], clock = 0, timers = []\<rparr>"

definition emit :: "event list \<Rightarrow> KVMState \<Rightarrow> KVMState" where
  "emit es s = s\<lparr>trace := trace s @ es\<rparr>"

text \<open>
  \<^verbatim>\<open>OnConnectionStateChange(redirector, state)\<close>: \<^verbatim>\<open>setKvmstate\<close>, then the
  auto-reconnect: with the flag set and state 0 the flag is cleared and the restart is
  handed to \<^verbatim>\<open>setTimeout\<close> with 2000 ms. The redirector argument is not read.
\<close>

definition OnConnectionStateChange :: "nat \<Rightarrow> int \<Rightarrow> KVMState \<Rightarrow> KVMState" where
  "OnConnectionStateChange redirector st s =
     (let s1 = s\<lparr>kvmstate := st\<rparr> in
      if desktopSettingsChangeRef s1 \<and> st = 0
      then s1\<lparr>desktopSettingsChangeRef := False,
              timers := timers s1 @ [(clock s1 + 2000, RestartKVM)]\<rparr>
      else s1)"

text \<open>The body of the timer callback: it reads the two refs when it runs.\<close>

definition restartCallback :: "KVMState \<Rightarrow> KVMState" where
  "restartCallback s =
     (let s1 = (case redirectorRef s of None \<Rightarrow> s
                | Some r \<Rightarrow> emit [RedirectorStart (redirectorId r)] s)
      in case keyboardRef s1 of None \<Rightarrow> s1
         | Some k \<Rightarrow> emit [GrabKeyInput (keyboardId k)] s1)"

fun runTimer :: "timer \<Rightarrow> KVMState \<Rightarrow> KVMState" where
  "runTimer RestartKVM s = restartCallback s"

text \<open>
  The event loop's side of \<^verbatim>\<open>setTimeout\<close>: when the clock reaches \<open>t\<close>, the timers due
  by then run, earliest first, and leave the queue; a timer that is not yet due stays.
\<close>

definition advanceClock :: "nat \<Rightarrow> KVMState \<Rightarrow> KVMState" where
  "advanceClock t s =
     (let due = filter (\<lambda>(d, cb). d \<le> t) (timers s);
          s1 = s\<lparr>clock := max t (clock s),
                 timers := filter (\<lambda>(d, cb). \<not> d \<le> t) (timers s)\<rparr>
      in fold (\<lambda>(d, cb) st. runTimer cb st) (sort_key fst due) s1)"

text \<open>
  \<^verbatim>\<open>cleanUp\<close>: the five refs are set to \<^verbatim>\<open>null\<close>, and with a context present
  \<^verbatim>\<open>clearRect(0, 0, canvas.height, canvas.width)\<close> is called: the source passes the
  height of the canvas as the width of the rectangle and the width as its height.
\<close>

definition cleanUp :: "KVMState \<Rightarrow> KVMState" where
  "cleanUp s =
     (let s1 = s\<lparr>moduleRef := None, dataProcessorRef := None, redirectorRef := None,
                 mouseHelperRef := None, keyboardRef := None\<rparr>
      in case ctxRef s1 of None \<Rightarrow> s1 | Some c \<Rightarrow>
           emit [ClearRect (ctxId c) 0 0 (canvasHeight c) (canvasWidth c)] s1)"

text \<open>
  The five constructor calls of one run of \<^verbatim>\<open>init\<close>, in the order of the source; the
  objects get the identities \<open>n\<close> to \<open>n + 4\<close>.
\<close>

definition newGraph :: "nat \<Rightarrow> event list" where
  "newGraph n = [NewAMTDesktop n, NewAMTKvmDataRedirector (n + 1), NewDataProcessor (n + 2),
                 NewMouseHelper (n + 3), NewKeyBoardHelper (n + 4)]"

text \<open>
  \<^verbatim>\<open>init\<close>, as the closure of a render with props \<open>p\<close> and encoding option \<open>enc\<close>:
  nothing without a canvas context; otherwise the configuration, the debounce floor,
  the five objects in the order of the source (a new \<^verbatim>\<open>AMTDesktop\<close> has \<^verbatim>\<open>bpp = 1\<close>, as
  in \<^verbatim>\<open>src/mocks/ui-toolkit-core.ts\<close>), and last the write of \<^verbatim>\<open>bpp\<close>.
\<close>

definition init :: "KVMProps \<Rightarrow> number \<Rightarrow> KVMState \<Rightarrow> KVMState" where
  "init p enc s =
     (case ctxRef s of
        None \<Rightarrow> s
      | Some c \<Rightarrow>
          let debounce = (if mouseDebounceTime p < 200 then 200 else mouseDebounceTime p);
              cfg = kvmConfig p;
              n = nextId s;
              m = \<lparr>desktopId = n, desktopCtx = ctxId c, bpp = Num 1\<rparr>;
              r = \<lparr>redirectorId = n + 1, config = cfg\<rparr>;
              d = \<lparr>dataProcessorId = n + 2, dpRedirector = n + 1, dpDesktop = n\<rparr>;
              mh = \<lparr>mouseHelperId = n + 3, mhDesktop = n, mhRedirector = n + 1,
                    debounceTime = debounce\<rparr>;
              k = \<lparr>keyboardId = n + 4, kbDesktop = n, kbRedirector = n + 1\<rparr>
          in emit (newGraph n)
               (s\<lparr>moduleRef := Some (m\<lparr>bpp := enc\<rparr>), redirectorRef := Some r,
                  dataProcessorRef := Some d, mouseHelperRef := Some mh, keyboardRef := Some k,
                  nextId := n + 5\<rparr>))"

text \<open>
  The \<^verbatim>\<open>onError\<close> handler that \<^verbatim>\<open>init\<close> installs on the redirector:
  \<^verbatim>\<open>cleanUp(); initRef.current()\<close>.
\<close>

definition onError :: "KVMState \<Rightarrow> KVMState" where
  "onError s =
     (let s1 = cleanUp s in
      case initRef s1 of None \<Rightarrow> s1 | Some (p, enc) \<Rightarrow> init p enc s1)"

text \<open>The effect that keeps \<^verbatim>\<open>initRef\<close> in step with \<^verbatim>\<open>init\<close>.\<close>

definition syncInitRef :: "KVMProps \<Rightarrow> KVMState \<Rightarrow> KVMState" where
  "syncInitRef p s = s\<lparr>initRef := Some (p, encodingOption s)\<rparr>"

text \<open>
  The handlers below are the closures of the current render: they read the props \<open>p\<close>
  and the \<^verbatim>\<open>useState\<close> values of the state they are applied to.
\<close>

definition reset :: "KVMProps \<Rightarrow> KVMState \<Rightarrow> KVMState" where
  "reset p s = init p (encodingOption s) (cleanUp s)"

definition saveContext :: "KVMProps \<Rightarrow> CanvasRenderingContext2D \<Rightarrow> KVMState \<Rightarrow> KVMState" where
  "saveContext p ctx s = init p (encodingOption s) (s\<lparr>ctxRef := Some ctx\<rparr>)"

definition startKVM :: "KVMState \<Rightarrow> KVMState" where
  "startKVM s =
     (let s1 = (case redirectorRef s of None \<Rightarrow> s
                | Some r \<Rightarrow> emit [RedirectorStart (redirectorId r)] s)
      in case keyboardRef s1 of None \<Rightarrow> s1
         | Some k \<Rightarrow> emit [GrabKeyInput (keyboardId k)] s1)"

definition stopKVM :: "KVMProps \<Rightarrow> KVMState \<Rightarrow> KVMState" where
  "stopKVM p s =
     (let s1 = (case redirectorRef s of None \<Rightarrow> s
                | Some r \<Rightarrow> emit [RedirectorStop (redirectorId r)] s);
          s2 = (case keyboardRef s1 of None \<Rightarrow> s1
                | Some k \<Rightarrow> emit [UnGrabKeyInput (keyboardId k)] s1)
      in reset p s2)"

text \<open>
  \<^verbatim>\<open>settings.encoding\<close> is a \<^verbatim>\<open>number | string\<close>; a string goes through
  \<^verbatim>\<open>parseInt\<close>, a number is taken as it is.
\<close>

datatype encoding = EncodingNumber number | EncodingString string

fun encodingValue :: "encoding \<Rightarrow> number" where
  "encodingValue (EncodingString str) = parseInt str"
| "encodingValue (EncodingNumber n) = n"

text \<open>
  \<^verbatim>\<open>changeDesktopSettings(settings)\<close>. Connected: the flag, the write of \<^verbatim>\<open>bpp\<close> to the
  desktop the ref holds, then \<^verbatim>\<open>stopKVM\<close>. Otherwise: \<^verbatim>\<open>setEncodingOption\<close> and the write
  of \<^verbatim>\<open>bpp\<close>. (\<^verbatim>\<open>setEncodingOption\<close> is written to the state at once: the handler does
  not read the value again.)
\<close>

definition changeDesktopSettings :: "KVMProps \<Rightarrow> encoding \<Rightarrow> KVMState \<Rightarrow> KVMState" where
  "changeDesktopSettings p settings s =
     (if kvmstate s = 2 then
        (let s1 = s\<lparr>desktopSettingsChangeRef := True\<rparr>;
             s2 = (case moduleRef s1 of None \<Rightarrow> s1
                   | Some m \<Rightarrow> s1\<lparr>moduleRef := Some (m\<lparr>bpp := encodingValue settings\<rparr>)\<rparr>)
         in stopKVM p s2)
      else
        (let newEncoding = encodingValue settings;
             s1 = s\<lparr>encodingOption := newEncoding\<rparr>
         in case moduleRef s1 of None \<Rightarrow> s1
            | Some m \<Rightarrow> s1\<lparr>moduleRef := Some (m\<lparr>bpp := newEncoding\<rparr>)\<rparr>))"

definition handleConnectClick :: "KVMProps \<Rightarrow> KVMState \<Rightarrow> KVMState" where
  "handleConnectClick p s =
     (if kvmstate s = 0 then startKVM s
      else if kvmstate s = 1 then s
      else if kvmstate s = 2 then stopKVM p s
      else s)"

text \<open>The effect on \<^verbatim>\<open>[deviceId, stopKVM]\<close>.\<close>

definition deviceIdEffect :: "KVMProps \<Rightarrow> KVMState \<Rightarrow> KVMState" where
  "deviceIdEffect p s =
     (if prevDeviceIdRef s \<noteq> deviceId p
      then (stopKVM p s)\<lparr>prevDeviceIdRef := deviceId p\<rparr>
      else s)"

definition getConnectState :: "KVMState \<Rightarrow> int" where
  "getConnectState s = kvmstate s"

text \<open>
  \<^verbatim>\<open>src/components/kvm/PureCanvas.tsx\<close>: the effect on \<^verbatim>\<open>[contextRef]\<close> hands the 2D
  context of the canvas to the callback, when the canvas has one.
\<close>

definition pureCanvasEffect ::
  "CanvasRenderingContext2D option \<Rightarrow> (CanvasRenderingContext2D \<Rightarrow> 'a \<Rightarrow> 'a) \<Rightarrow> 'a \<Rightarrow> 'a" where
  "pureCanvasEffect canvasCtx contextRef s =
     (case canvasCtx of None \<Rightarrow> s | Some ctx \<Rightarrow> contextRef ctx s)"

text \<open>
  The effects of one commit. The KVM component renders \<^verbatim>\<open>PureCanvas\<close> with
  \<^verbatim>\<open>contextRef={saveContext}\<close>. React runs the effects of a commit children first, so
  the effect of \<^verbatim>\<open>PureCanvas\<close> runs before the effects of KVM, and those run in the
  order of the source: the one that stores \<^verbatim>\<open>init\<close> in \<^verbatim>\<open>initRef\<close>, then the one on
  \<^verbatim>\<open>[deviceId, stopKVM]\<close> (the effect on \<^verbatim>\<open>[]\<close> between them has no body to run).
\<close>

definition runEffects :: "CanvasRenderingContext2D option \<Rightarrow> KVMProps \<Rightarrow> KVMState \<Rightarrow> KVMState" where
  "runEffects canvasCtx p s =
     deviceIdEffect p (syncInitRef p (pureCanvasEffect canvasCtx (saveContext p) s))"

text \<open>
  A later commit runs an effect again only when one of its dependencies changed.
  \<^verbatim>\<open>init\<close> is memoised on the four props and on \<^verbatim>\<open>encodingOption\<close>; \<^verbatim>\<open>saveContext\<close>,
  \<^verbatim>\<open>reset\<close> and \<^verbatim>\<open>stopKVM\<close> are memoised on \<^verbatim>\<open>init\<close>. So when the props and the encoding
  option of the previous render \<open>prev\<close> are those of this render no effect runs, and
  otherwise all three do.
\<close>

definition commitEffects ::
  "CanvasRenderingContext2D option \<Rightarrow> KVMProps \<times> number \<Rightarrow> KVMProps \<Rightarrow> KVMState \<Rightarrow> KVMState" where
  "commitEffects canvasCtx prev p s =
     (if prev = (p, encodingOption s) then s else runEffects canvasCtx p s)"

section \<open>The encoding dropdown\<close>

text \<open>
  \<^verbatim>\<open>src/components/kvm/EncodingOptions.tsx\<close>: what the component renders for its
  \<^verbatim>\<open>select\<close> element, from the connection state \<^verbatim>\<open>getConnectState()\<close> returns and from
  its own \<^verbatim>\<open>value\<close> state.
\<close>

record SelectElement =
  selectValue :: number
  selectDisabled :: bool

definition EncodingOptions :: "int \<Rightarrow> number \<Rightarrow> SelectElement" where
  "EncodingOptions connectState val =
     (let isConnected = (connectState = 2)
      in \<lparr>selectValue = val, selectDisabled = isConnected\<rparr>)"

text \<open>
  \<^verbatim>\<open>onEncodingChange\<close>: \<^verbatim>\<open>parseInt\<close> of the option's value, \<^verbatim>\<open>setValue\<close>, then the
  \<^verbatim>\<open>changeEncoding\<close> callback. The state is the pair of the dropdown's \<^verbatim>\<open>value\<close> and the
  state the callback acts on.
\<close>

definition onEncodingChange :: "(number \<Rightarrow> 'a \<Rightarrow> 'a) \<Rightarrow> string \<Rightarrow> number \<times> 'a \<Rightarrow> number \<times> 'a" where
  "onEncodingChange changeEncoding targetValue vs =
     (let newValue = parseInt targetValue in (newValue, changeEncoding newValue (snd vs)))"

text \<open>
  \<^verbatim>\<open>DesktopSettings.changeEncoding\<close> stores the encoding in its settings object and
  passes the object to \<^verbatim>\<open>changeDesktopSettings\<close>.
\<close>

definition changeEncoding :: "KVMProps \<Rightarrow> number \<Rightarrow> KVMState \<Rightarrow> KVMState" where
  "changeEncoding p enc s = changeDesktopSettings p (EncodingNumber enc) s"

text \<open>
  The user picks the option with value \<open>targetValue\<close>: a disabled \<^verbatim>\<open>select\<close> takes no
  input and dispatches no change event; an enabled one calls \<^verbatim>\<open>onChange\<close>.
\<close>

definition userSelects :: "KVMProps \<Rightarrow> string \<Rightarrow> number \<times> KVMState \<Rightarrow> number \<times> KVMState" where
  "userSelects p targetValue vs =
     (if selectDisabled (EncodingOptions (getConnectState (snd vs)) (fst vs)) then vs
      else onEncodingChange (changeEncoding p) targetValue vs)"

section \<open>The terminal\<close>

text \<open>
  \<^verbatim>\<open>src/components/sol/Terminal.tsx\<close>. The key handler receives \<^verbatim>\<open>{ key, domEvent }\<close>
  and reads the selection of the terminal; what it does is the list of its calls:
  \<^verbatim>\<open>domEvent.preventDefault()\<close>, \<^verbatim>\<open>navigator.clipboard.writeText\<close>,
  \<^verbatim>\<open>navigator.clipboard.readText\<close> (whose text goes to the key-press handler when the
  promise resolves) and \<^verbatim>\<open>handleKeyPressRef.current\<close>.
\<close>

record KeyEvent =
  domKey :: string
  ctrlKey :: bool

record Selection =
  hasSelection :: bool
  getSelection :: string

datatype termEffect =
    PreventDefault
  | ClipboardWriteText string
  | ClipboardReadText
  | HandleKeyPress string

definition onKey :: "Selection \<Rightarrow> string \<Rightarrow> KeyEvent \<Rightarrow> termEffect list" where
  "onKey xterm key domEvent =
     PreventDefault #
     (if ctrlKey domEvent \<and> domKey domEvent = ''c'' then
        (if hasSelection xterm then [ClipboardWriteText (getSelection xterm)]
         else [HandleKeyPress [CHR 0x03]])
      else if ctrlKey domEvent \<and> domKey domEvent = ''v'' then [ClipboardReadText]
      else [HandleKeyPress
              (if domKey domEvent = ''Backspace'' then [CHR 0x08, CHR 0x20, CHR 0x08] else key)])"

definition onClipboardText :: "string \<Rightarrow> termEffect list" where
  "onClipboardText txt = [HandleKeyPress txt]"

text \<open>
  The mount effect of \<^verbatim>\<open>Term\<close>. The state of one component instance is the latch
  \<^verbatim>\<open>openedRef\<close> and the calls made on terminal instances so far; the effect is given the
  DOM node of \<^verbatim>\<open>terminalRef\<close> and the \<^verbatim>\<open>xterm\<close> prop (either may be \<^verbatim>\<open>null\<close>).
\<close>

datatype xtermCall =
    XtermOpen nat
  | XtermClear
  | XtermReset
  | XtermFocus
  | XtermOnKey
  | XtermOnData
  | XtermAttachCustomKeyEventHandler

record TermState =
  openedRef :: bool
  calls :: "(nat \<times> xtermCall) list"

definition mountEffect :: "nat option \<Rightarrow> nat option \<Rightarrow> TermState \<Rightarrow> TermState" where
  "mountEffect element xterm s =
     (case element of
        None \<Rightarrow> s
      | Some el \<Rightarrow>
          (case xterm of
             None \<Rightarrow> s
           | Some x \<Rightarrow>
               if openedRef s then s
               else s\<lparr>openedRef := True,
                      calls := calls s @ [(x, XtermOpen el), (x, XtermClear), (x, XtermReset),
                                          (x, XtermFocus), (x, XtermOnKey)]\<rparr>))"

text \<open>
  \<^verbatim>\<open>src/reactjs/SerialOverLAN/Terminal.tsx\<close>: the older component sets its latch
  \<^verbatim>\<open>mountedRef\<close> before it looks for the DOM node (\<^verbatim>\<open>document.getElementById('xterm')\<close>).
\<close>

record LegacyTermState =
  mountedRef :: bool
  legacyCalls :: "(nat \<times> xtermCall) list"

definition legacyMountEffect :: "nat option \<Rightarrow> nat option \<Rightarrow> LegacyTermState \<Rightarrow> LegacyTermState" where
  "legacyMountEffect element xterm s =
     (if mountedRef s then s
      else
        (let s1 = s\<lparr>mountedRef := True\<rparr> in
         case element of
           None \<Rightarrow> s1
         | Some el \<Rightarrow>
             (case xterm of
                None \<Rightarrow> s1
              | Some x \<Rightarrow>
                  s1\<lparr>legacyCalls := legacyCalls s1 @
                        [(x, XtermOpen el), (x, XtermOnData),
                         (x, XtermAttachCustomKeyEventHandler)]\<rparr>)))"

section \<open>IDE redirection: sector statistics\<close>

text \<open>
  \<^verbatim>\<open>src/components/ider/ider.tsx\<close>. The component keeps the protocol handler in
  \<^verbatim>\<open>iderRef\<close> (an \<^verbatim>\<open>AMTIDER | null\<close>); the handler carries the four byte counters.
\<close>

record AMTIDER =
  floppyRead :: int
  floppyWrite :: int
  cdromRead :: int
  cdromWrite :: int

text \<open>
  \<^verbatim>\<open>iderSectorStats(mode, dev, total, start, len)\<close>: the early return on a null handler,
  then the four branches in the order of the source. The arguments \<^verbatim>\<open>total\<close> and
  \<^verbatim>\<open>start\<close> are received and not read.
\<close>

definition iderSectorStats ::
  "int \<Rightarrow> int \<Rightarrow> int \<Rightarrow> int \<Rightarrow> int \<Rightarrow> AMTIDER option \<Rightarrow> AMTIDER option" where
  "iderSectorStats md dev tot start len iderRef =
     (case iderRef of
        None \<Rightarrow> None
      | Some h \<Rightarrow>
          if md = 1 then
            (if dev = 0 then Some (h\<lparr>floppyRead := floppyRead h + len * 512\<rparr>)
             else Some (h\<lparr>cdromRead := cdromRead h + len * 2048\<rparr>))
          else
            (if dev = 0 then Some (h\<lparr>floppyWrite := floppyWrite h + len * 512\<rparr>)
             else Some (h\<lparr>cdromWrite := cdromWrite h + len * 2048\<rparr>)))"

section \<open>A session of the KVM component\<close>

text \<open>
  The states the results below are evaluated at. The component is mounted for
  \<open>device-a\<close> with a debounce time of 50 ms; the canvas, 1366 pixels wide and 768
  high as \<^verbatim>\<open>PureCanvas\<close> renders it, hands over its context (number 7) in the first
  commit, which builds the objects 0 to 4 (\<open>readyState\<close>). The user
  clicks Connect and the redirector reports the states 1 and 2 (\<open>connectedState\<close>).
  \<open>deviceB\<close> are the same props for another device.
\<close>

definition deviceA :: KVMProps where
  "deviceA = \<lparr>deviceId = Some ''device-a'', mpsServer = Some ''http://mps.example'',
               mouseDebounceTime = 50, kvmAuthToken = ''token''\<rparr>"

definition deviceB :: KVMProps where
  "deviceB = deviceA\<lparr>deviceId := Some ''device-b''\<rparr>"

definition canvas7 :: CanvasRenderingContext2D where
  "canvas7 = \<lparr>ctxId = 7, canvasHeight = 768, canvasWidth = 1366\<rparr>"

definition readyState :: KVMState where
  "readyState = runEffects (Some canvas7) deviceA (mountState deviceA)"

definition connectedState :: KVMState where
  "connectedState =
     OnConnectionStateChange 1 2 (OnConnectionStateChange 1 1 (handleConnectClick deviceA readyState))"

text \<open>The calls that stop a connection: \<^verbatim>\<open>redirector.stop()\<close> and \<^verbatim>\<open>UnGrabKeyInput()\<close>.\<close>

fun isStopCall :: "event \<Rightarrow> bool" where
  "isStopCall (RedirectorStop r) = True"
| "isStopCall (UnGrabKeyInput k) = True"
| "isStopCall e = False"

section \<open>KVM: what the functions do to a state\<close>

lemma init_with_ctx:
  assumes "ctxRef s = Some c"
  shows "init p enc s =
           s\<lparr>moduleRef := Some \<lparr>desktopId = nextId s, desktopCtx = ctxId c, bpp = enc\<rparr>,
              redirectorRef := Some \<lparr>redirectorId = nextId s + 1, config = kvmConfig p\<rparr>,
              dataProcessorRef := Some \<lparr>dataProcessorId = nextId s + 2, dpRedirector = nextId s + 1,
                                         dpDesktop = nextId s\<rparr>,
              mouseHelperRef := Some \<lparr>mouseHelperId = nextId s + 3, mhDesktop = nextId s,
                                       mhRedirector = nextId s + 1,
                                       debounceTime = max (mouseDebounceTime p) 200\<rparr>,
              keyboardRef := Some \<lparr>keyboardId = nextId s + 4, kbDesktop = nextId s,
                                    kbRedirector = nextId s + 1\<rparr>,
              nextId := nextId s + 5,
              trace := trace s @ newGraph (nextId s)\<rparr>"
  using assms by (simp add: init_def emit_def Let_def max_def)

lemma init_without_ctx: "ctxRef s = None \<Longrightarrow> init p enc s = s"
  by (simp add: init_def)

lemma cleanUp_with_ctx:
  assumes "ctxRef s = Some c"
  shows "cleanUp s =
           s\<lparr>moduleRef := None, dataProcessorRef := None, redirectorRef := None,
              mouseHelperRef := None, keyboardRef := None,
              trace := trace s @ [ClearRect (ctxId c) 0 0 (canvasHeight c) (canvasWidth c)]\<rparr>"
  using assms by (simp add: cleanUp_def emit_def Let_def)

lemma reset_with_ctx:
  assumes "ctxRef s = Some c"
  shows "reset p s =
           s\<lparr>moduleRef := Some \<lparr>desktopId = nextId s, desktopCtx = ctxId c, bpp = encodingOption s\<rparr>,
              redirectorRef := Some \<lparr>redirectorId = nextId s + 1, config = kvmConfig p\<rparr>,
              dataProcessorRef := Some \<lparr>dataProcessorId = nextId s + 2, dpRedirector = nextId s + 1,
                                         dpDesktop = nextId s\<rparr>,
              mouseHelperRef := Some \<lparr>mouseHelperId = nextId s + 3, mhDesktop = nextId s,
                                       mhRedirector = nextId s + 1,
                                       debounceTime = max (mouseDebounceTime p) 200\<rparr>,
              keyboardRef := Some \<lparr>keyboardId = nextId s + 4, kbDesktop = nextId s,
                                    kbRedirector = nextId s + 1\<rparr>,
              nextId := nextId s + 5,
              trace := trace s @ ClearRect (ctxId c) 0 0 (canvasHeight c) (canvasWidth c)
                         # newGraph (nextId s)\<rparr>"
  using assms by (simp add: reset_def cleanUp_with_ctx init_with_ctx)

lemma stopKVM_with_objects:
  assumes "ctxRef s = Some c" and "redirectorRef s = Some r" and "keyboardRef s = Some k"
  shows "stopKVM p s =
           s\<lparr>moduleRef := Some \<lparr>desktopId = nextId s, desktopCtx = ctxId c, bpp = encodingOption s\<rparr>,
              redirectorRef := Some \<lparr>redirectorId = nextId s + 1, config = kvmConfig p\<rparr>,
              dataProcessorRef := Some \<lparr>dataProcessorId = nextId s + 2, dpRedirector = nextId s + 1,
                                         dpDesktop = nextId s\<rparr>,
              mouseHelperRef := Some \<lparr>mouseHelperId = nextId s + 3, mhDesktop = nextId s,
                                       mhRedirector = nextId s + 1,
                                       debounceTime = max (mouseDebounceTime p) 200\<rparr>,
              keyboardRef := Some \<lparr>keyboardId = nextId s + 4, kbDesktop = nextId s,
                                    kbRedirector = nextId s + 1\<rparr>,
              nextId := nextId s + 5,
              trace := trace s @ RedirectorStop (redirectorId r) # UnGrabKeyInput (keyboardId k)
                         # ClearRect (ctxId c) 0 0 (canvasHeight c) (canvasWidth c)
                 # newGraph (nextId s)\<rparr>"
  using assms by (simp add: stopKVM_def emit_def reset_with_ctx)

lemma onError_step:
  assumes "ctxRef s = Some c" and "initRef s = Some (p, enc)"
  shows "onError s =
           s\<lparr>moduleRef := Some \<lparr>desktopId = nextId s, desktopCtx = ctxId c, bpp = enc\<rparr>,
              redirectorRef := Some \<lparr>redirectorId = nextId s + 1, config = kvmConfig p\<rparr>,
              dataProcessorRef := Some \<lparr>dataProcessorId = nextId s + 2, dpRedirector = nextId s + 1,
                                         dpDesktop = nextId s\<rparr>,
              mouseHelperRef := Some \<lparr>mouseHelperId = nextId s + 3, mhDesktop = nextId s,
                                       mhRedirector = nextId s + 1,
                                       debounceTime = max (mouseDebounceTime p) 200\<rparr>,
              keyboardRef := Some \<lparr>keyboardId = nextId s + 4, kbDesktop = nextId s,
                                    kbRedirector = nextId s + 1\<rparr>,
              nextId := nextId s + 5,
              trace := trace s @ ClearRect (ctxId c) 0 0 (canvasHeight c) (canvasWidth c)
                         # newGraph (nextId s)\<rparr>"
  using assms by (simp add: onError_def cleanUp_with_ctx init_with_ctx)

lemma isStopCall_newGraph: "filter isStopCall (newGraph n) = []"
  by (simp add: newGraph_def)

lemma readyState_eval:
  "readyState =
     \<lparr>kvmstate = 0, encodingOption = Num 1,
      moduleRef = Some \<lparr>desktopId = 0, desktopCtx = 7, bpp = Num 1\<rparr>,
      dataProcessorRef = Some \<lparr>dataProcessorId = 2, dpRedirector = 1, dpDesktop = 0\<rparr>,
      redirectorRef = Some \<lparr>redirectorId = 1, config = kvmConfig deviceA\<rparr>,
      mouseHelperRef = Some \<lparr>mouseHelperId = 3, mhDesktop = 0, mhRedirector = 1, debounceTime = 200\<rparr>,
      keyboardRef = Some \<lparr>keyboardId = 4, kbDesktop = 0, kbRedirector = 1\<rparr>,
      desktopSettingsChangeRef = False, ctxRef = Some canvas7, prevDeviceIdRef = Some ''device-a'',
      initRef = Some (deviceA, Num 1), nextId = 5,
      trace = newGraph 0, clock = 0, timers = []\<rparr>"
  by (simp add: readyState_def runEffects_def mountState_def deviceIdEffect_def syncInitRef_def
      pureCanvasEffect_def saveContext_def init_def emit_def deviceA_def canvas7_def Let_def)

lemma connectedState_eval:
  "connectedState =
     \<lparr>kvmstate = 2, encodingOption = Num 1,
      moduleRef = Some \<lparr>desktopId = 0, desktopCtx = 7, bpp = Num 1\<rparr>,
      dataProcessorRef = Some \<lparr>dataProcessorId = 2, dpRedirector = 1, dpDesktop = 0\<rparr>,
      redirectorRef = Some \<lparr>redirectorId = 1, config = kvmConfig deviceA\<rparr>,
      mouseHelperRef = Some \<lparr>mouseHelperId = 3, mhDesktop = 0, mhRedirector = 1, debounceTime = 200\<rparr>,
      keyboardRef = Some \<lparr>keyboardId = 4, kbDesktop = 0, kbRedirector = 1\<rparr>,
      desktopSettingsChangeRef = False, ctxRef = Some canvas7, prevDeviceIdRef = Some ''device-a'',
      initRef = Some (deviceA, Num 1), nextId = 5,
      trace = newGraph 0 @ [RedirectorStart 1, GrabKeyInput 4],
      clock = 0, timers = []\<rparr>"
  by (simp add: connectedState_def readyState_eval OnConnectionStateChange_def
      handleConnectClick_def startKVM_def emit_def Let_def)

section \<open>KVM: an encoding change while connected\<close>

text \<open>
  What \<^verbatim>\<open>changeDesktopSettings\<close> does in state 2, for every such state with a canvas
  context, a redirector and a keyboard helper: the flag is set, the redirector is
  stopped and the keyboard released at once, and no timer is scheduled yet.
\<close>

lemma changeDesktopSettings_connected_stops:
  assumes "kvmstate s = 2" and "ctxRef s = Some c"
    and "redirectorRef s = Some r" and "keyboardRef s = Some k"
  shows "desktopSettingsChangeRef (changeDesktopSettings p settings s)
         \<and> trace (changeDesktopSettings p settings s)
             = trace s @ RedirectorStop (redirectorId r) # UnGrabKeyInput (keyboardId k)
                 # ClearRect (ctxId c) 0 0 (canvasHeight c) (canvasWidth c)
                 # newGraph (nextId s)
         \<and> timers (changeDesktopSettings p settings s) = timers s"
proof (cases "moduleRef s")
  case None
  then show ?thesis using assms
    by (simp add: changeDesktopSettings_def Let_def
          stopKVM_with_objects [where c = c and r = r and k = k])
next
  case (Some m)
  then show ?thesis using assms
    by (simp add: changeDesktopSettings_def Let_def
          stopKVM_with_objects [where c = c and r = r and k = k])
qed

text \<open>
  The selected encoding does not survive the handler: it is written to the desktop
  that \<^verbatim>\<open>stopKVM\<close> then drops (\<^verbatim>\<open>reset\<close> calls \<^verbatim>\<open>cleanUp\<close>), \<^verbatim>\<open>setEncodingOption\<close> is not
  called on this branch, and \<^verbatim>\<open>init\<close> writes the unchanged \<^verbatim>\<open>encodingOption\<close> to the new
  desktop.
\<close>

lemma changeDesktopSettings_connected_encoding:
  assumes "kvmstate s = 2" and "ctxRef s = Some c"
  shows "encodingOption (changeDesktopSettings p settings s) = encodingOption s
         \<and> map_option bpp (moduleRef (changeDesktopSettings p settings s)) = Some (encodingOption s)"
  using assms
  by (simp add: changeDesktopSettings_def Let_def stopKVM_def reset_def emit_def
        cleanUp_with_ctx init_with_ctx split: option.splits)

text \<open>
  The handler is reached through the dropdown only, and in state 2 the dropdown is
  disabled: a selection by the user changes nothing then.
\<close>

lemma userSelects_connected:
  assumes "kvmstate s = 2"
  shows "userSelects p targetValue (val, s) = (val, s)"
  using assms by (simp add: userSelects_def EncodingOptions_def getConnectState_def Let_def)

text \<open>
  The state callback: with the flag set, a report of state 0 clears the flag and
  schedules the restart for 2000 ms after the time of the callback; any other report
  only stores the state.
\<close>

lemma OnConnectionStateChange_reconnect:
  assumes "desktopSettingsChangeRef s"
  shows "OnConnectionStateChange r 0 s =
           s\<lparr>kvmstate := 0, desktopSettingsChangeRef := False,
              timers := timers s @ [(clock s + 2000, RestartKVM)]\<rparr>"
  using assms by (simp add: OnConnectionStateChange_def Let_def)

lemma OnConnectionStateChange_other:
  assumes "\<not> desktopSettingsChangeRef s \<or> st \<noteq> 0"
  shows "OnConnectionStateChange r st s = s\<lparr>kvmstate := st\<rparr>"
  using assms by (auto simp add: OnConnectionStateChange_def Let_def)

text \<open>
  The timer callback reads the two refs and adds to the trace; it neither reads nor
  writes the connection state, the flag, the clock or the timers.
\<close>

lemma runTimer_frame:
  "runTimer cb (s\<lparr>kvmstate := a, desktopSettingsChangeRef := b, clock := cl, timers := ts\<rparr>)
     = (runTimer cb s)\<lparr>kvmstate := a, desktopSettingsChangeRef := b, clock := cl, timers := ts\<rparr>"
  by (cases cb) (simp add: restartCallback_def emit_def Let_def split: option.splits)

lemma fold_runTimer_frame:
  "fold (\<lambda>(d, cb) st. runTimer cb st) xs
       (s\<lparr>kvmstate := a, desktopSettingsChangeRef := b, clock := cl, timers := ts\<rparr>)
     = (fold (\<lambda>(d, cb) st. runTimer cb st) xs s)
         \<lparr>kvmstate := a, desktopSettingsChangeRef := b, clock := cl, timers := ts\<rparr>"
proof (induction xs arbitrary: s)
  case Nil
  show ?case by simp
next
  case (Cons x xs)
  obtain d cb where x: "x = (d, cb)" by (cases x)
  show ?case by (simp add: x runTimer_frame Cons.IH)
qed

lemma runTimer_timers: "timers (runTimer cb s) = timers s \<and> clock (runTimer cb s) = clock s"
  by (cases cb) (simp add: restartCallback_def emit_def Let_def split: option.splits)

lemma fold_runTimer_timers:
  "timers (fold (\<lambda>(d, cb) st. runTimer cb st) xs s) = timers s"
proof (induction xs arbitrary: s)
  case Nil
  show ?case by simp
next
  case (Cons x xs)
  obtain d cb where x: "x = (d, cb)" by (cases x)
  show ?case by (simp add: x Cons.IH runTimer_timers)
qed

text \<open>
  Before 2000 ms have passed since the callback, the restart it scheduled has not run
  and is still pending, whatever other timers there are; once they have passed (and
  nothing else was pending) the timer callback has run.
\<close>

lemma restart_not_before_delay:
  assumes "desktopSettingsChangeRef u" and "t < clock u + 2000"
  shows "trace (advanceClock t (OnConnectionStateChange r 0 u)) = trace (advanceClock t u)
         \<and> timers (advanceClock t (OnConnectionStateChange r 0 u))
             = timers (advanceClock t u) @ [(clock u + 2000, RestartKVM)]"
proof -
  let ?f = "\<lambda>(d, cb) st. runTimer cb st"
  let ?due = "sort_key fst (filter (\<lambda>(d, cb). d \<le> t) (timers u))"
  let ?rest = "filter (\<lambda>(d, cb). \<not> d \<le> t) (timers u)"
  let ?s1 = "u\<lparr>clock := max t (clock u), timers := ?rest\<rparr>"
  have a: "advanceClock t u = fold ?f ?due ?s1"
    by (simp add: advanceClock_def Let_def)
  have "advanceClock t (OnConnectionStateChange r 0 u)
          = fold ?f ?due (?s1\<lparr>kvmstate := 0, desktopSettingsChangeRef := False,
                               clock := max t (clock u),
                               timers := ?rest @ [(clock u + 2000, RestartKVM)]\<rparr>)"
    using assms by (simp add: OnConnectionStateChange_reconnect advanceClock_def Let_def)
  then have b: "advanceClock t (OnConnectionStateChange r 0 u)
          = (fold ?f ?due ?s1)\<lparr>kvmstate := 0, desktopSettingsChangeRef := False,
                               clock := max t (clock u),
                               timers := ?rest @ [(clock u + 2000, RestartKVM)]\<rparr>"
    by (simp only: fold_runTimer_frame)
  have "timers (fold ?f ?due ?s1) = ?rest" by (simp add: fold_runTimer_timers)
  with a b show ?thesis by simp
qed

lemma restart_after_delay:
  assumes "desktopSettingsChangeRef u" and "timers u = []" and "clock u + 2000 \<le> t"
  shows "trace (advanceClock t (OnConnectionStateChange r 0 u)) = trace (restartCallback u)
         \<and> timers (advanceClock t (OnConnectionStateChange r 0 u)) = []"
  using assms
  by (simp add: OnConnectionStateChange_reconnect advanceClock_def restartCallback_def emit_def
        Let_def split: option.splits)

lemma restartCallback_trace:
  assumes "redirectorRef u = Some r" and "keyboardRef u = Some k"
  shows "trace (restartCallback u)
           = trace u @ [RedirectorStart (redirectorId r), GrabKeyInput (keyboardId k)]"
  using assms by (simp add: restartCallback_def emit_def Let_def)

lemma reconnecting_eval:
  "changeDesktopSettings deviceA (EncodingNumber (Num 2)) connectedState =
     \<lparr>kvmstate = 2, encodingOption = Num 1,
      moduleRef = Some \<lparr>desktopId = 5, desktopCtx = 7, bpp = Num 1\<rparr>,
      dataProcessorRef = Some \<lparr>dataProcessorId = 7, dpRedirector = 6, dpDesktop = 5\<rparr>,
      redirectorRef = Some \<lparr>redirectorId = 6, config = kvmConfig deviceA\<rparr>,
      mouseHelperRef = Some \<lparr>mouseHelperId = 8, mhDesktop = 5, mhRedirector = 6, debounceTime = 200\<rparr>,
      keyboardRef = Some \<lparr>keyboardId = 9, kbDesktop = 5, kbRedirector = 6\<rparr>,
      desktopSettingsChangeRef = True, ctxRef = Some canvas7, prevDeviceIdRef = Some ''device-a'',
      initRef = Some (deviceA, Num 1), nextId = 10,
      trace = newGraph 0 @ [RedirectorStart 1, GrabKeyInput 4, RedirectorStop 1, UnGrabKeyInput 4,
                            ClearRect 7 0 0 768 1366] @ newGraph 5,
      clock = 0, timers = []\<rparr>"
  by (simp add: connectedState_eval changeDesktopSettings_def stopKVM_def reset_def cleanUp_def
        init_def emit_def canvas7_def deviceA_def Let_def)

text \<open>
  C1, as the code has it. In state 2 the dropdown is disabled, so a selection by the
  user changes nothing. When \<^verbatim>\<open>changeDesktopSettings\<close> is called in state 2 (with a
  canvas context, a redirector and a keyboard helper), it sets the settings-changed flag
  and stops the connection at once: \<^verbatim>\<open>redirector.stop()\<close> and \<^verbatim>\<open>UnGrabKeyInput()\<close> on the
  objects held, then \<^verbatim>\<open>reset\<close>; no timer is scheduled yet. For every state \<open>u\<close> with the
  flag set, the callback for state 0 clears the flag and schedules the restart for
  \<open>clock u + 2000\<close>; at every time \<open>t\<close> before that the restart has added nothing to the
  trace and is still pending; and from then on (with no other timer pending) it has
  started the redirector and grabbed the keyboard that the refs hold.
\<close>

theorem changeDesktopSettings_connected_reconnect:
  assumes "kvmstate s = 2" and "ctxRef s = Some c"
    and "redirectorRef s = Some r" and "keyboardRef s = Some k"
  shows "userSelects p targetValue (val, s) = (val, s)
         \<and> desktopSettingsChangeRef (changeDesktopSettings p settings s)
         \<and> trace (changeDesktopSettings p settings s)
             = trace s @ RedirectorStop (redirectorId r) # UnGrabKeyInput (keyboardId k)
                 # ClearRect (ctxId c) 0 0 (canvasHeight c) (canvasWidth c)
                 # newGraph (nextId s)
         \<and> timers (changeDesktopSettings p settings s) = timers s
         \<and> (desktopSettingsChangeRef u \<longrightarrow>
              OnConnectionStateChange rd 0 u
                = u\<lparr>kvmstate := 0, desktopSettingsChangeRef := False,
                     timers := timers u @ [(clock u + 2000, RestartKVM)]\<rparr>
              \<and> (t < clock u + 2000 \<longrightarrow>
                    trace (advanceClock t (OnConnectionStateChange rd 0 u)) = trace (advanceClock t u)
                    \<and> timers (advanceClock t (OnConnectionStateChange rd 0 u))
                        = timers (advanceClock t u) @ [(clock u + 2000, RestartKVM)])
              \<and> (clock u + 2000 \<le> t \<and> timers u = [] \<and> redirectorRef u = Some r' \<and> keyboardRef u = Some k' \<longrightarrow>
                    trace (advanceClock t (OnConnectionStateChange rd 0 u))
                      = trace u @ [RedirectorStart (redirectorId r'), GrabKeyInput (keyboardId k')]))"
proof -
  have guard: "userSelects p targetValue (val, s) = (val, s)"
    using assms(1) by (rule userSelects_connected)
  note handler = changeDesktopSettings_connected_stops [OF assms, of p settings]
  have callback: "desktopSettingsChangeRef u \<longrightarrow>
              OnConnectionStateChange rd 0 u
                = u\<lparr>kvmstate := 0, desktopSettingsChangeRef := False,
                     timers := timers u @ [(clock u + 2000, RestartKVM)]\<rparr>
              \<and> (t < clock u + 2000 \<longrightarrow>
                    trace (advanceClock t (OnConnectionStateChange rd 0 u)) = trace (advanceClock t u)
                    \<and> timers (advanceClock t (OnConnectionStateChange rd 0 u))
                        = timers (advanceClock t u) @ [(clock u + 2000, RestartKVM)])
              \<and> (clock u + 2000 \<le> t \<and> timers u = [] \<and> redirectorRef u = Some r' \<and> keyboardRef u = Some k' \<longrightarrow>
                    trace (advanceClock t (OnConnectionStateChange rd 0 u))
                      = trace u @ [RedirectorStart (redirectorId r'), GrabKeyInput (keyboardId k')])"
  proof (intro impI conjI)
    assume f: "desktopSettingsChangeRef u"
    show "OnConnectionStateChange rd 0 u
                = u\<lparr>kvmstate := 0, desktopSettingsChangeRef := False,
                     timers := timers u @ [(clock u + 2000, RestartKVM)]\<rparr>"
      using f by (rule OnConnectionStateChange_reconnect)
    {
      assume b: "t < clock u + 2000"
      from restart_not_before_delay [OF f b, of rd]
      show "trace (advanceClock t (OnConnectionStateChange rd 0 u)) = trace (advanceClock t u)"
        and "timers (advanceClock t (OnConnectionStateChange rd 0 u))
                        = timers (advanceClock t u) @ [(clock u + 2000, RestartKVM)]"
        by simp_all
    }
    {
      assume a: "clock u + 2000 \<le> t \<and> timers u = [] \<and> redirectorRef u = Some r' \<and> keyboardRef u = Some k'"
      then have "trace (advanceClock t (OnConnectionStateChange rd 0 u)) = trace (restartCallback u)"
        using restart_after_delay [OF f, of t rd] by simp
      with a show "trace (advanceClock t (OnConnectionStateChange rd 0 u))
                      = trace u @ [RedirectorStart (redirectorId r'), GrabKeyInput (keyboardId k')]"
        by (simp add: restartCallback_trace)
    }
  qed
  from guard handler callback show ?thesis by blast
qed

theorem changeDesktopSettings_connected_reconnect_witness:
  "kvmstate connectedState = 2 \<and> ctxRef connectedState = Some canvas7
   \<and> redirectorRef connectedState = Some \<lparr>redirectorId = 1, config = kvmConfig deviceA\<rparr>
   \<and> keyboardRef connectedState = Some \<lparr>keyboardId = 4, kbDesktop = 0, kbRedirector = 1\<rparr>
   \<and> userSelects deviceA ''2'' (Num 1, connectedState) = (Num 1, connectedState)
   \<and> desktopSettingsChangeRef (changeDesktopSettings deviceA (EncodingNumber (Num 2)) connectedState)
   \<and> trace (changeDesktopSettings deviceA (EncodingNumber (Num 2)) connectedState)
       = trace connectedState @ RedirectorStop 1 # UnGrabKeyInput 4 # ClearRect 7 0 0 768 1366
           # newGraph 5
   \<and> timers (OnConnectionStateChange 1 0
        (changeDesktopSettings deviceA (EncodingNumber (Num 2)) connectedState))
       = [(2000, RestartKVM)]
   \<and> \<not> desktopSettingsChangeRef (OnConnectionStateChange 1 0
        (changeDesktopSettings deviceA (EncodingNumber (Num 2)) connectedState))
   \<and> trace (advanceClock 1999 (OnConnectionStateChange 1 0
        (changeDesktopSettings deviceA (EncodingNumber (Num 2)) connectedState)))
       = trace (changeDesktopSettings deviceA (EncodingNumber (Num 2)) connectedState)
   \<and> trace (advanceClock 2000 (OnConnectionStateChange 1 0
        (changeDesktopSettings deviceA (EncodingNumber (Num 2)) connectedState)))
       = trace (changeDesktopSettings deviceA (EncodingNumber (Num 2)) connectedState)
           @ [RedirectorStart 6, GrabKeyInput 9]"
proof -
  let ?u = "changeDesktopSettings deviceA (EncodingNumber (Num 2)) connectedState"
  have h: "kvmstate connectedState = 2" "ctxRef connectedState = Some canvas7"
    "redirectorRef connectedState = Some \<lparr>redirectorId = 1, config = kvmConfig deviceA\<rparr>"
    "keyboardRef connectedState = Some \<lparr>keyboardId = 4, kbDesktop = 0, kbRedirector = 1\<rparr>"
    by (simp_all add: connectedState_eval)
  have u: "desktopSettingsChangeRef ?u" "timers ?u = []" "clock ?u = 0"
    "redirectorRef ?u = Some \<lparr>redirectorId = 6, config = kvmConfig deviceA\<rparr>"
    "keyboardRef ?u = Some \<lparr>keyboardId = 9, kbDesktop = 5, kbRedirector = 6\<rparr>"
    by (simp_all add: reconnecting_eval)
  have idle: "trace (advanceClock 1999 ?u) = trace ?u"
    by (simp add: reconnecting_eval advanceClock_def Let_def)
  note w1 = changeDesktopSettings_connected_reconnect
              [OF h, where p = deviceA and targetValue = "''2''" and val = "Num 1"
                 and settings = "EncodingNumber (Num 2)" and u = ?u and rd = 1 and t = 1999]
  note w2 = changeDesktopSettings_connected_reconnect
              [OF h, where p = deviceA and targetValue = "''2''" and val = "Num 1"
                 and settings = "EncodingNumber (Num 2)" and u = ?u and rd = 1 and t = 2000
                 and r' = "\<lparr>redirectorId = 6, config = kvmConfig deviceA\<rparr>"
                 and k' = "\<lparr>keyboardId = 9, kbDesktop = 5, kbRedirector = 6\<rparr>"]
  have lt: "1999 < clock ?u + 2000" by (simp add: u)
  from w1 u(1) lt
  have a: "trace (advanceClock 1999 (OnConnectionStateChange 1 0 ?u)) = trace (advanceClock 1999 ?u)"
    by blast
  have ge: "clock ?u + 2000 \<le> 2000 \<and> timers ?u = []
      \<and> redirectorRef ?u = Some \<lparr>redirectorId = 6, config = kvmConfig deviceA\<rparr>
      \<and> keyboardRef ?u = Some \<lparr>keyboardId = 9, kbDesktop = 5, kbRedirector = 6\<rparr>"
    by (simp add: u)
  from w2 u(1) ge
  have "trace (advanceClock 2000 (OnConnectionStateChange 1 0 ?u))
       = trace ?u @ [RedirectorStart (redirectorId \<lparr>redirectorId = 6, config = kvmConfig deviceA\<rparr>),
                     GrabKeyInput (keyboardId \<lparr>keyboardId = 9, kbDesktop = 5, kbRedirector = 6\<rparr>)]"
    by blast
  then have b: "trace (advanceClock 2000 (OnConnectionStateChange 1 0 ?u))
       = trace ?u @ [RedirectorStart 6, GrabKeyInput 9]"
    by simp
  from w1 u(1) have c: "OnConnectionStateChange 1 0 ?u
       = ?u\<lparr>kvmstate := 0, desktopSettingsChangeRef := False,
             timers := timers ?u @ [(clock ?u + 2000, RestartKVM)]\<rparr>"
    by blast
  have d: "timers (OnConnectionStateChange 1 0 ?u) = [(2000, RestartKVM)]"
    "\<not> desktopSettingsChangeRef (OnConnectionStateChange 1 0 ?u)"
    using c by (simp_all add: u)
  from w1 have e: "userSelects deviceA ''2'' (Num 1, connectedState) = (Num 1, connectedState)"
    "desktopSettingsChangeRef ?u"
    "trace ?u = trace connectedState @ RedirectorStop (redirectorId \<lparr>redirectorId = 1, config = kvmConfig deviceA\<rparr>)
        # UnGrabKeyInput (keyboardId \<lparr>keyboardId = 4, kbDesktop = 0, kbRedirector = 1\<rparr>)
        # ClearRect (ctxId canvas7) 0 0 (canvasHeight canvas7) (canvasWidth canvas7)
        # newGraph (nextId connectedState)"
    by blast+
  have n: "nextId connectedState = 5" by (simp add: connectedState_eval)
  from e(3) have e3: "trace ?u = trace connectedState @ RedirectorStop 1 # UnGrabKeyInput 4
        # ClearRect 7 0 0 768 1366 # newGraph 5"
    by (simp add: canvas7_def n)
  from h e(1,2) e3 d a idle b show ?thesis by simp
qed

text \<open>
  C1, as stated, fails. In the connected session with encoding option 1 the dropdown
  is disabled and a selection of encoding 2 changes nothing; and
  \<^verbatim>\<open>changeDesktopSettings\<close>, called there with encoding 2, leaves \<open>encodingOption\<close> at 1
  and the \<open>bpp\<close> of the desktop in the ref at 1, so that the restart 2000 ms after the
  disconnect callback starts redirector 6, whose desktop 5 has \<open>bpp = 1\<close>: the pending
  encoding value is not updated.
\<close>

theorem changeDesktopSettings_connected_encoding_not_pending:
  "kvmstate connectedState = 2 \<and> encodingOption connectedState = Num 1
   \<and> userSelects deviceA ''2'' (Num 1, connectedState) = (Num 1, connectedState)
   \<and> encodingOption (changeDesktopSettings deviceA (EncodingNumber (Num 2)) connectedState)
       = Num 1
   \<and> moduleRef (changeDesktopSettings deviceA (EncodingNumber (Num 2)) connectedState)
       = Some \<lparr>desktopId = 5, desktopCtx = 7, bpp = Num 1\<rparr>
   \<and> trace (advanceClock 2000 (OnConnectionStateChange 1 0
        (changeDesktopSettings deviceA (EncodingNumber (Num 2)) connectedState)))
       = trace connectedState @ RedirectorStop 1 # UnGrabKeyInput 4 # ClearRect 7 0 0 768 1366
           # newGraph 5 @ [RedirectorStart 6, GrabKeyInput 9]
   \<and> moduleRef (advanceClock 2000 (OnConnectionStateChange 1 0
        (changeDesktopSettings deviceA (EncodingNumber (Num 2)) connectedState)))
       = Some \<lparr>desktopId = 5, desktopCtx = 7, bpp = Num 1\<rparr>"
proof -
  have g: "userSelects deviceA ''2'' (Num 1, connectedState) = (Num 1, connectedState)"
    by (simp add: userSelects_def EncodingOptions_def getConnectState_def connectedState_eval Let_def)
  show ?thesis
    by (simp add: g reconnecting_eval)
       (simp add: connectedState_eval OnConnectionStateChange_def advanceClock_def
          restartCallback_def emit_def newGraph_def Let_def)
qed

section \<open>KVM: an error reported by the redirector\<close>

text \<open>
  However often the redirector reports an error, the handler finds the canvas context
  and the stored \<^verbatim>\<open>init\<close> again, schedules no timer, and adds no call of
  \<^verbatim>\<open>redirector.stop()\<close> or \<^verbatim>\<open>UnGrabKeyInput()\<close> to the trace.
\<close>

lemma onError_iterated:
  assumes "ctxRef s = Some c" and "initRef s = Some (p, enc)"
  shows "ctxRef ((onError ^^ k) s) = Some c \<and> initRef ((onError ^^ k) s) = Some (p, enc)
         \<and> nextId ((onError ^^ k) s) = nextId s + 5 * k
         \<and> timers ((onError ^^ k) s) = timers s
         \<and> filter isStopCall (trace ((onError ^^ k) s)) = filter isStopCall (trace s)"
proof (induction k)
  case 0
  show ?case using assms by simp
next
  case (Suc k)
  let ?t = "(onError ^^ k) s"
  from Suc have c: "ctxRef ?t = Some c" and i: "initRef ?t = Some (p, enc)" by simp_all
  show ?case using Suc by (simp add: onError_step [OF c i] isStopCall_newGraph)
qed

text \<open>
  Before the effect has stored \<^verbatim>\<open>init\<close>, \<^verbatim>\<open>initRef.current\<close> is the empty function and
  the handler only cleans up.
\<close>

lemma onError_before_sync: "initRef s = None \<Longrightarrow> onError s = cleanUp s"
  by (simp add: onError_def cleanUp_def emit_def Let_def split: option.splits)

text \<open>
  C2, as the code has it. With a canvas context saved and \<^verbatim>\<open>init\<close> stored in
  \<^verbatim>\<open>initRef\<close>, every error the redirector reports runs \<^verbatim>\<open>cleanUp\<close> (the references are
  dropped) and then \<^verbatim>\<open>init\<close>: after the error number \<open>k + 1\<close> the
  refs hold a freshly built redirector and desktop, for every \<open>k\<close> (no retry limit), no
  timer has been scheduled (no backoff), and no call of \<^verbatim>\<open>redirector.stop()\<close> or
  \<^verbatim>\<open>UnGrabKeyInput()\<close> has been made.
\<close>

theorem onError_reinitializes_without_stop:
  assumes "ctxRef s = Some c" and "initRef s = Some (p, enc)"
  shows "onError s = init p enc (cleanUp s)
         \<and> redirectorRef ((onError ^^ Suc k) s)
             = Some \<lparr>redirectorId = nextId s + 5 * k + 1, config = kvmConfig p\<rparr>
         \<and> moduleRef ((onError ^^ Suc k) s)
             = Some \<lparr>desktopId = nextId s + 5 * k, desktopCtx = ctxId c, bpp = enc\<rparr>
         \<and> filter isStopCall (trace ((onError ^^ Suc k) s)) = filter isStopCall (trace s)
         \<and> timers ((onError ^^ Suc k) s) = timers s"
proof -
  let ?t = "(onError ^^ k) s"
  from onError_iterated [OF assms, of k]
  have c: "ctxRef ?t = Some c" and i: "initRef ?t = Some (p, enc)"
    and n: "nextId ?t = nextId s + 5 * k" by simp_all
  have "onError s = init p enc (cleanUp s)"
    using assms by (simp add: onError_def cleanUp_with_ctx)
  moreover have "redirectorRef ((onError ^^ Suc k) s)
             = Some \<lparr>redirectorId = nextId s + 5 * k + 1, config = kvmConfig p\<rparr>"
    by (simp add: onError_step [OF c i] n)
  moreover have "moduleRef ((onError ^^ Suc k) s)
             = Some \<lparr>desktopId = nextId s + 5 * k, desktopCtx = ctxId c, bpp = enc\<rparr>"
    by (simp add: onError_step [OF c i] n)
  moreover have "filter isStopCall (trace ((onError ^^ Suc k) s)) = filter isStopCall (trace s)
         \<and> timers ((onError ^^ Suc k) s) = timers s"
    using onError_iterated [OF assms, of "Suc k"] by blast
  ultimately show ?thesis by blast
qed

theorem onError_reinitializes_without_stop_witness:
  "ctxRef connectedState = Some canvas7 \<and> initRef connectedState = Some (deviceA, Num 1)
   \<and> onError connectedState = init deviceA (Num 1) (cleanUp connectedState)
   \<and> redirectorRef ((onError ^^ Suc 2) connectedState)
       = Some \<lparr>redirectorId = nextId connectedState + 5 * 2 + 1, config = kvmConfig deviceA\<rparr>
   \<and> moduleRef ((onError ^^ Suc 2) connectedState)
       = Some \<lparr>desktopId = nextId connectedState + 5 * 2, desktopCtx = 7, bpp = Num 1\<rparr>
   \<and> filter isStopCall (trace ((onError ^^ Suc 2) connectedState))
       = filter isStopCall (trace connectedState)
   \<and> timers ((onError ^^ Suc 2) connectedState) = timers connectedState"
proof -
  have c: "ctxRef connectedState = Some canvas7"
    and i: "initRef connectedState = Some (deviceA, Num 1)"
    by (simp_all add: connectedState_eval)
  have x: "ctxId canvas7 = 7" by (simp add: canvas7_def)
  from onError_reinitializes_without_stop [OF c i, of 2] c i show ?thesis
    unfolding x by blast
qed

text \<open>
  C2, as stated, fails: in the connected session the error handler calls neither
  \<^verbatim>\<open>redirector.stop()\<close> on redirector 1 nor \<^verbatim>\<open>UnGrabKeyInput()\<close> on keyboard helper 4,
  and what it does differs from \<^verbatim>\<open>stopKVM\<close>.
\<close>

theorem onError_calls_no_stop:
  "redirectorRef connectedState = Some \<lparr>redirectorId = 1, config = kvmConfig deviceA\<rparr>
   \<and> keyboardRef connectedState = Some \<lparr>keyboardId = 4, kbDesktop = 0, kbRedirector = 1\<rparr>
   \<and> trace (onError connectedState) = trace connectedState @ ClearRect 7 0 0 768 1366 # newGraph 5
   \<and> RedirectorStop 1 \<notin> set (trace (onError connectedState))
   \<and> UnGrabKeyInput 4 \<notin> set (trace (onError connectedState))
   \<and> onError connectedState \<noteq> stopKVM deviceA connectedState"
proof -
  have t: "trace (onError connectedState) = trace connectedState @ ClearRect 7 0 0 768 1366 # newGraph 5"
    by (simp add: connectedState_eval onError_def cleanUp_def init_def emit_def canvas7_def Let_def)
  have "trace (stopKVM deviceA connectedState) \<noteq> trace (onError connectedState)"
    by (simp add: connectedState_eval onError_def stopKVM_def reset_def cleanUp_def init_def
          emit_def canvas7_def Let_def)
  then have "onError connectedState \<noteq> stopKVM deviceA connectedState" by auto
  then show ?thesis using t
    by (simp add: connectedState_eval newGraph_def)
qed

section \<open>KVM: a change of the device\<close>

text \<open>
  The effect on \<^verbatim>\<open>[deviceId, stopKVM]\<close>, taken alone: when the device differs from the
  remembered one, the redirector and the keyboard helper that the refs hold when the
  effect runs are stopped and released once each, before the new objects are built.
\<close>

lemma deviceIdEffect_stops_held_objects:
  assumes "prevDeviceIdRef s \<noteq> deviceId p" and "ctxRef s = Some c"
    and "redirectorRef s = Some r" and "keyboardRef s = Some k"
  shows "trace (deviceIdEffect p s)
           = trace s @ RedirectorStop (redirectorId r) # UnGrabKeyInput (keyboardId k)
               # ClearRect (ctxId c) 0 0 (canvasHeight c) (canvasWidth c)
                 # newGraph (nextId s)
         \<and> prevDeviceIdRef (deviceIdEffect p s) = deviceId p"
  using assms
  by (simp add: deviceIdEffect_def stopKVM_with_objects [where c = c and r = r and k = k])

text \<open>
  The whole commit after a change of the device, for every state: \<^verbatim>\<open>saveContext\<close> builds
  a new graph first, and the calls of \<^verbatim>\<open>stop\<close> and \<^verbatim>\<open>UnGrabKeyInput\<close> go to the redirector
  and the keyboard helper of that new graph, whatever the refs held before the commit.
\<close>

lemma commitEffects_device_change:
  assumes "p \<noteq> p'" and "prevDeviceIdRef s \<noteq> deviceId p'"
  shows "trace (commitEffects (Some c) (p, enc) p' s)
           = trace s @ newGraph (nextId s)
               @ RedirectorStop (nextId s + 1) # UnGrabKeyInput (nextId s + 4) # ClearRect (ctxId c) 0 0 (canvasHeight c) (canvasWidth c)
               # newGraph (nextId s + 5)"
proof -
  let ?s1 = "saveContext p' c s"
  have s1: "?s1 = init p' (encodingOption s) (s\<lparr>ctxRef := Some c\<rparr>)"
    by (simp add: saveContext_def)
  have c1: "ctxRef (syncInitRef p' ?s1) = Some c"
    and r1: "redirectorRef (syncInitRef p' ?s1)
               = Some \<lparr>redirectorId = nextId s + 1, config = kvmConfig p'\<rparr>"
    and k1: "keyboardRef (syncInitRef p' ?s1)
               = Some \<lparr>keyboardId = nextId s + 4, kbDesktop = nextId s,
                       kbRedirector = nextId s + 1\<rparr>"
    and n1: "nextId (syncInitRef p' ?s1) = nextId s + 5"
    and t1: "trace (syncInitRef p' ?s1) = trace s @ newGraph (nextId s)"
    and d1: "prevDeviceIdRef (syncInitRef p' ?s1) = prevDeviceIdRef s"
    by (simp_all add: s1 syncInitRef_def init_with_ctx)
  from d1 assms(2) have d: "prevDeviceIdRef (syncInitRef p' ?s1) \<noteq> deviceId p'" by simp
  from assms(1)
  have "commitEffects (Some c) (p, enc) p' s = deviceIdEffect p' (syncInitRef p' ?s1)"
    by (auto simp add: commitEffects_def runEffects_def pureCanvasEffect_def)
  then show ?thesis
    using deviceIdEffect_stops_held_objects [OF d c1 r1 k1] by (simp add: t1 n1)
qed

text \<open>
  C3. In the commit that follows a change of \<^verbatim>\<open>deviceId\<close>, the effect of \<^verbatim>\<open>PureCanvas\<close>
  runs first: \<^verbatim>\<open>saveContext\<close> is a new function, so it is called again and \<^verbatim>\<open>init\<close>
  replaces the objects in the refs without stopping anything. The effect on
  \<^verbatim>\<open>[deviceId, stopKVM]\<close> then stops what the refs hold by now. In the connected session
  (redirector 1 started, keyboard helper 4 grabbed) a change to \<open>device-b\<close> builds the
  objects 5 to 9, stops redirector 6 and releases keyboard helper 9, and builds the
  objects 10 to 14: \<^verbatim>\<open>stop\<close> and \<^verbatim>\<open>UnGrabKeyInput\<close> are called once each, but the prior
  connection (redirector 1, keyboard helper 4) is never stopped.
\<close>

theorem deviceId_change_leaves_prior_connection:
  "redirectorRef connectedState = Some \<lparr>redirectorId = 1, config = kvmConfig deviceA\<rparr>
   \<and> keyboardRef connectedState = Some \<lparr>keyboardId = 4, kbDesktop = 0, kbRedirector = 1\<rparr>
   \<and> trace (commitEffects (Some canvas7) (deviceA, Num 1) deviceB connectedState)
       = trace connectedState @ newGraph 5
           @ RedirectorStop 6 # UnGrabKeyInput 9 # ClearRect 7 0 0 768 1366 # newGraph 10
   \<and> RedirectorStop 1 \<notin> set (trace (commitEffects (Some canvas7) (deviceA, Num 1) deviceB connectedState))
   \<and> UnGrabKeyInput 4 \<notin> set (trace (commitEffects (Some canvas7) (deviceA, Num 1) deviceB connectedState))"
  by (simp add: connectedState_eval commitEffects_def runEffects_def deviceIdEffect_def
        syncInitRef_def pureCanvasEffect_def saveContext_def init_def emit_def stopKVM_def
        reset_def cleanUp_def deviceA_def deviceB_def canvas7_def newGraph_def Let_def)

section \<open>KVM: the mouse debounce floor\<close>

text \<open>
  C4. Whenever \<^verbatim>\<open>init\<close> builds the mouse helper (a canvas context is present), the
  debounce value it passes to the constructor is the larger of the \<^verbatim>\<open>mouseDebounceTime\<close>
  prop and 200: exactly 200 for an input below 200, the input itself from 200 on.
\<close>

theorem init_mouse_debounce_floor:
  assumes "ctxRef s = Some c"
  shows "map_option debounceTime (mouseHelperRef (init p enc s))
           = Some (max (mouseDebounceTime p) 200)
         \<and> (mouseDebounceTime p < 200 \<longrightarrow>
              map_option debounceTime (mouseHelperRef (init p enc s)) = Some 200)
         \<and> (200 \<le> mouseDebounceTime p \<longrightarrow>
              map_option debounceTime (mouseHelperRef (init p enc s)) = Some (mouseDebounceTime p))"
  using assms by (simp add: init_with_ctx max_def)

theorem init_mouse_debounce_floor_witness:
  "ctxRef connectedState = Some canvas7
   \<and> map_option debounceTime (mouseHelperRef (init deviceA (Num 1) connectedState)) = Some 200
   \<and> map_option debounceTime
        (mouseHelperRef (init (deviceA\<lparr>mouseDebounceTime := 350\<rparr>) (Num 1) connectedState))
       = Some 350"
proof -
  have c: "ctxRef connectedState = Some canvas7" by (simp add: connectedState_eval)
  from init_mouse_debounce_floor [OF c, of deviceA "Num 1"]
       init_mouse_debounce_floor [OF c, of "deviceA\<lparr>mouseDebounceTime := 350\<rparr>" "Num 1"] c
  show ?thesis by (simp add: deviceA_def)
qed

section \<open>KVM: an encoding change while not connected\<close>

text \<open>
  C8. In every state other than 2, \<^verbatim>\<open>changeDesktopSettings\<close> stores the selected encoding
  in \<^verbatim>\<open>encodingOption\<close> and in the \<^verbatim>\<open>bpp\<close> field of the desktop the ref holds (when it
  holds one), and does nothing else: the settings-changed flag, the trace of calls (so
  no \<^verbatim>\<open>redirector.stop()\<close>), the timers, the redirector, the keyboard helper and the
  connection state are as before. A string is read with \<^verbatim>\<open>parseInt\<close>.
\<close>

theorem changeDesktopSettings_not_connected:
  assumes "kvmstate s \<noteq> 2"
  shows "encodingOption (changeDesktopSettings p settings s) = encodingValue settings
         \<and> moduleRef (changeDesktopSettings p settings s)
             = map_option (\<lambda>m. m\<lparr>bpp := encodingValue settings\<rparr>) (moduleRef s)
         \<and> desktopSettingsChangeRef (changeDesktopSettings p settings s)
             = desktopSettingsChangeRef s
         \<and> trace (changeDesktopSettings p settings s) = trace s
         \<and> timers (changeDesktopSettings p settings s) = timers s
         \<and> redirectorRef (changeDesktopSettings p settings s) = redirectorRef s
         \<and> keyboardRef (changeDesktopSettings p settings s) = keyboardRef s
         \<and> kvmstate (changeDesktopSettings p settings s) = kvmstate s"
  using assms by (simp add: changeDesktopSettings_def Let_def split: option.splits)

theorem changeDesktopSettings_not_connected_witness:
  "kvmstate readyState \<noteq> 2
   \<and> encodingOption (changeDesktopSettings deviceA (EncodingString ''2'') readyState) = Num 2
   \<and> moduleRef (changeDesktopSettings deviceA (EncodingString ''2'') readyState)
       = Some \<lparr>desktopId = 0, desktopCtx = 7, bpp = Num 2\<rparr>
   \<and> desktopSettingsChangeRef (changeDesktopSettings deviceA (EncodingString ''2'') readyState)
       = False
   \<and> trace (changeDesktopSettings deviceA (EncodingString ''2'') readyState) = trace readyState
   \<and> timers (changeDesktopSettings deviceA (EncodingString ''2'') readyState) = []"
proof -
  have k: "kvmstate readyState \<noteq> 2" by (simp add: readyState_eval)
  have e: "encodingValue (EncodingString ''2'') = Num 2"
    by (simp add: parseInt_def isWhiteSpace_def digitValue_def)
  from changeDesktopSettings_not_connected [OF k, of deviceA "EncodingString ''2''"] k e
  show ?thesis by (simp add: readyState_eval)
qed

section \<open>The encoding dropdown: results\<close>

text \<open>
  C10. For every connection state that \<^verbatim>\<open>getConnectState\<close> returns, the dropdown is
  disabled exactly when the state is 2. So in state 2 a selection by the user changes
  nothing, and in every other state (state 1, connecting, among them) it reaches
  \<^verbatim>\<open>changeDesktopSettings\<close> with the parsed value.
\<close>

theorem EncodingOptions_disabled_iff_connected:
  "(selectDisabled (EncodingOptions (getConnectState s) val) \<longleftrightarrow> getConnectState s = 2)
   \<and> (getConnectState s = 2 \<longrightarrow> userSelects p targetValue (val, s) = (val, s))
   \<and> (getConnectState s \<noteq> 2 \<longrightarrow>
        userSelects p targetValue (val, s)
          = (parseInt targetValue,
             changeDesktopSettings p (EncodingNumber (parseInt targetValue)) s))"
  by (simp add: EncodingOptions_def userSelects_def onEncodingChange_def changeEncoding_def Let_def)

theorem EncodingOptions_disabled_iff_connected_witness:
  "getConnectState connectedState = 2
   \<and> selectDisabled (EncodingOptions (getConnectState connectedState) (Num 1))
   \<and> userSelects deviceA ''2'' (Num 1, connectedState) = (Num 1, connectedState)
   \<and> getConnectState (OnConnectionStateChange 1 1 readyState) = 1
   \<and> \<not> selectDisabled
          (EncodingOptions (getConnectState (OnConnectionStateChange 1 1 readyState)) (Num 1))
   \<and> fst (userSelects deviceA ''2'' (Num 1, OnConnectionStateChange 1 1 readyState)) = Num 2
   \<and> encodingOption
        (snd (userSelects deviceA ''2'' (Num 1, OnConnectionStateChange 1 1 readyState))) = Num 2"
proof -
  have a: "getConnectState connectedState = 2"
    by (simp add: getConnectState_def connectedState_eval)
  have b: "getConnectState (OnConnectionStateChange 1 1 readyState) = 1"
    by (simp add: getConnectState_def OnConnectionStateChange_def Let_def)
  have e: "parseInt ''2'' = Num 2"
    by (simp add: parseInt_def isWhiteSpace_def digitValue_def)
  from EncodingOptions_disabled_iff_connected [of connectedState "Num 1" deviceA "''2''"]
       EncodingOptions_disabled_iff_connected
         [of "OnConnectionStateChange 1 1 readyState" "Num 1" deviceA "''2''"]
       a b e
  show ?thesis
    by (simp add: changeDesktopSettings_def getConnectState_def Let_def split: option.splits)
qed

section \<open>The redirector configuration: results\<close>

text \<open>
  \<^verbatim>\<open>replace('http', 'ws')\<close> touches the first occurrence only: a URL that starts with
  \<^verbatim>\<open>http\<close> gets \<^verbatim>\<open>ws\<close> in its place (so \<^verbatim>\<open>https\<close> becomes \<^verbatim>\<open>wss\<close>), and the rest is kept.
\<close>

lemma js_replace_prefix: "js_replace ''http'' ''ws'' (''http'' @ rest) = ''ws'' @ rest"
  by simp

lemma js_replace_at_occurrence:
  assumes "pat \<noteq> []"
  shows "js_replace pat rep (pat @ b) = rep @ b"
proof (cases "pat @ b")
  case Nil
  with assms show ?thesis by simp
next
  case (Cons c cs)
  have "take (length pat) (pat @ b) = pat" by simp
  then show ?thesis
    by (metis Cons append_eq_conv_conj js_replace.simps(2))
qed

text \<open>
  In general: when \<open>a @ pat @ b\<close> splits the string at the first occurrence of the
  pattern, the result is \<open>a @ rep @ b\<close>; a string without the pattern is returned as it is.
\<close>

lemma js_replace_first_occurrence:
  assumes "pat \<noteq> []"
    and "\<And>a' b'. a @ pat @ b = a' @ pat @ b' \<Longrightarrow> length a \<le> length a'"
  shows "js_replace pat rep (a @ pat @ b) = a @ rep @ b"
  using assms(2)
proof (induction a)
  case Nil
  show ?case using js_replace_at_occurrence [OF assms(1)] by simp
next
  case (Cons x a)
  have no: "take (length pat) (x # a @ pat @ b) \<noteq> pat"
  proof
    assume "take (length pat) (x # a @ pat @ b) = pat"
    then have "(x # a) @ pat @ b = [] @ pat @ drop (length pat) (x # a @ pat @ b)"
      by (metis append_Cons append_Nil append_take_drop_id)
    from Cons.prems [OF this] show False by simp
  qed
  have "js_replace pat rep (a @ pat @ b) = a @ rep @ b"
  proof (rule Cons.IH)
    fix a' b'
    assume "a @ pat @ b = a' @ pat @ b'"
    then have "(x # a) @ pat @ b = (x # a') @ pat @ b'" by simp
    from Cons.prems [OF this] show "length a \<le> length a'" by simp
  qed
  with no show ?case by simp
qed

lemma js_replace_absent:
  assumes "pat \<noteq> []" and "\<And>a b. s \<noteq> a @ pat @ b"
  shows "js_replace pat rep s = s"
  using assms(2)
proof (induction s)
  case Nil
  with assms(1) show ?case by simp
next
  case (Cons x s)
  have no: "take (length pat) (x # s) \<noteq> pat"
  proof
    assume "take (length pat) (x # s) = pat"
    then have "x # s = [] @ pat @ drop (length pat) (x # s)"
      by (metis append_Nil append_take_drop_id)
    with Cons.prems show False by blast
  qed
  have "js_replace pat rep s = s"
  proof (rule Cons.IH)
    fix a b
    show "s \<noteq> a @ pat @ b"
    proof
      assume "s = a @ pat @ b"
      then have "x # s = (x # a) @ pat @ b" by simp
      with Cons.prems show False by blast
    qed
  qed
  with no show ?case by simp
qed

lemma js_replace_first_only:
  "js_replace ''http'' ''ws'' ''https://http.example'' = ''wss://http.example''"
  by simp



section \<open>The terminal: results\<close>

text \<open>
  The handler recognises Ctrl+C by \<^verbatim>\<open>domEvent.ctrlKey && domEvent.key === 'c'\<close>. On such
  an event: with a selection, it writes the selection to the clipboard and sends nothing
  to the key-press handler; without one, it sends the single byte 0x03 to the key-press
  handler, once, and makes no clipboard call.
\<close>

lemma onKey_ctrl_lower_c:
  assumes "ctrlKey domEvent" and "domKey domEvent = ''c''"
  shows "(hasSelection xterm \<longrightarrow>
            onKey xterm key domEvent = [PreventDefault, ClipboardWriteText (getSelection xterm)])
         \<and> (\<not> hasSelection xterm \<longrightarrow>
            onKey xterm key domEvent = [PreventDefault, HandleKeyPress [CHR 0x03]])"
  using assms by (simp add: onKey_def)

text \<open>
  Any other key pressed with Ctrl (but \<^verbatim>\<open>'v'\<close> and \<^verbatim>\<open>'Backspace'\<close>) is forwarded as the
  terminal reports it, whether or not there is a selection.
\<close>

lemma onKey_ctrl_other:
  assumes "ctrlKey domEvent" and "domKey domEvent \<noteq> ''c''" and "domKey domEvent \<noteq> ''v''"
    and "domKey domEvent \<noteq> ''Backspace''"
  shows "onKey xterm key domEvent = [PreventDefault, HandleKeyPress key]"
  using assms by (simp add: onKey_def)

text \<open>
  C6. With CapsLock on, the key event of Ctrl+C has \<^verbatim>\<open>domEvent.key === 'C'\<close>, and the
  terminal reports the key as the byte 0x03. The comparison with \<^verbatim>\<open>'c'\<close> fails, so with a
  text selection the handler still sends the byte 0x03 to the key-press handler and
  writes nothing to the clipboard.
\<close>

theorem onKey_ctrl_c_capslock:
  "onKey \<lparr>hasSelection = True, getSelection = ''ls -l''\<rparr> [CHR 0x03]
         \<lparr>domKey = ''C'', ctrlKey = True\<rparr>
     = [PreventDefault, HandleKeyPress [CHR 0x03]]
   \<and> ClipboardWriteText ''ls -l''
       \<notin> set (onKey \<lparr>hasSelection = True, getSelection = ''ls -l''\<rparr> [CHR 0x03]
                     \<lparr>domKey = ''C'', ctrlKey = True\<rparr>)"
  by (simp add: onKey_def)

text \<open>
  C7. On a component instance whose latch is not yet set, the mount effect run with a
  DOM node and a terminal opens the terminal on the node and registers the key handler,
  once; the effect run again (with whatever node and terminal) changes nothing. So
  across both runs \<^verbatim>\<open>xterm.open\<close> and the registration of the key handler happen exactly
  once. The same holds for the older component with its \<^verbatim>\<open>mountedRef\<close> latch.
\<close>

theorem mountEffect_twice_opens_once:
  assumes "\<not> openedRef s" and "\<not> mountedRef t"
  shows "mountEffect (Some el) (Some x) s
           = s\<lparr>openedRef := True,
                calls := calls s @ [(x, XtermOpen el), (x, XtermClear), (x, XtermReset),
                                    (x, XtermFocus), (x, XtermOnKey)]\<rparr>
         \<and> mountEffect element2 xterm2 (mountEffect (Some el) (Some x) s)
             = mountEffect (Some el) (Some x) s
         \<and> legacyMountEffect (Some el) (Some x) t
             = t\<lparr>mountedRef := True,
                  legacyCalls := legacyCalls t @ [(x, XtermOpen el), (x, XtermOnData),
                                                  (x, XtermAttachCustomKeyEventHandler)]\<rparr>
         \<and> legacyMountEffect element2 xterm2 (legacyMountEffect (Some el) (Some x) t)
             = legacyMountEffect (Some el) (Some x) t
         \<and> count_list (map snd (calls (mountEffect element2 xterm2
                                          (mountEffect (Some el) (Some x) s)))) (XtermOpen el)
             = count_list (map snd (calls s)) (XtermOpen el) + 1
         \<and> count_list (map snd (calls (mountEffect element2 xterm2
                                          (mountEffect (Some el) (Some x) s)))) XtermOnKey
             = count_list (map snd (calls s)) XtermOnKey + 1
         \<and> count_list (map snd (legacyCalls (legacyMountEffect element2 xterm2
                                          (legacyMountEffect (Some el) (Some x) t)))) (XtermOpen el)
             = count_list (map snd (legacyCalls t)) (XtermOpen el) + 1
         \<and> count_list (map snd (legacyCalls (legacyMountEffect element2 xterm2
                                          (legacyMountEffect (Some el) (Some x) t))))
               XtermAttachCustomKeyEventHandler
             = count_list (map snd (legacyCalls t)) XtermAttachCustomKeyEventHandler + 1"
  using assms by (simp add: mountEffect_def legacyMountEffect_def Let_def split: option.splits)

theorem mountEffect_twice_opens_once_witness:
  "mountEffect (Some 3) (Some 8) (mountEffect (Some 3) (Some 8) \<lparr>openedRef = False, calls = []\<rparr>)
     = \<lparr>openedRef = True,
        calls = [(8, XtermOpen 3), (8, XtermClear), (8, XtermReset), (8, XtermFocus),
                 (8, XtermOnKey)]\<rparr>
   \<and> legacyMountEffect (Some 3) (Some 8)
       (legacyMountEffect (Some 3) (Some 8) \<lparr>mountedRef = False, legacyCalls = []\<rparr>)
     = \<lparr>mountedRef = True,
        legacyCalls = [(8, XtermOpen 3), (8, XtermOnData), (8, XtermAttachCustomKeyEventHandler)]\<rparr>"
proof -
  have h1: "\<not> openedRef \<lparr>openedRef = False, calls = []\<rparr>"
    and h2: "\<not> mountedRef \<lparr>mountedRef = False, legacyCalls = []\<rparr>"
    by simp_all
  note w = mountEffect_twice_opens_once [OF h1 h2, of 3 8 "Some 3" "Some 8"]
  from w have again:
    "mountEffect (Some 3) (Some 8) (mountEffect (Some 3) (Some 8) \<lparr>openedRef = False, calls = []\<rparr>)
       = mountEffect (Some 3) (Some 8) \<lparr>openedRef = False, calls = []\<rparr>"
    "legacyMountEffect (Some 3) (Some 8)
         (legacyMountEffect (Some 3) (Some 8) \<lparr>mountedRef = False, legacyCalls = []\<rparr>)
       = legacyMountEffect (Some 3) (Some 8) \<lparr>mountedRef = False, legacyCalls = []\<rparr>"
    by blast+
  from w have first:
    "mountEffect (Some 3) (Some 8) \<lparr>openedRef = False, calls = []\<rparr>
       = \<lparr>openedRef = False, calls = []\<rparr>\<lparr>openedRef := True,
            calls := calls \<lparr>openedRef = False, calls = []\<rparr> @
              [(8, XtermOpen 3), (8, XtermClear), (8, XtermReset), (8, XtermFocus), (8, XtermOnKey)]\<rparr>"
    "legacyMountEffect (Some 3) (Some 8) \<lparr>mountedRef = False, legacyCalls = []\<rparr>
       = \<lparr>mountedRef = False, legacyCalls = []\<rparr>\<lparr>mountedRef := True,
            legacyCalls := legacyCalls \<lparr>mountedRef = False, legacyCalls = []\<rparr> @
              [(8, XtermOpen 3), (8, XtermOnData), (8, XtermAttachCustomKeyEventHandler)]\<rparr>"
    by blast+
  show ?thesis by (simp only: again) (simp add: first)
qed

section \<open>Sector statistics: results\<close>

text \<open>
  C5. With a non-null handler, one call of the sector-statistics callback adds
  \<open>len * 512\<close> to \<open>floppyRead\<close> (mode 1, device 0), \<open>len * 2048\<close> to \<open>cdromRead\<close>
  (mode 1, device not 0), \<open>len * 512\<close> to \<open>floppyWrite\<close> (mode not 1, device 0) or
  \<open>len * 2048\<close> to \<open>cdromWrite\<close> (mode not 1, device not 0), and leaves the other three
  counters as they were.
\<close>

theorem iderSectorStats_counters:
  assumes "iderRef = Some h"
  shows "(md = 1 \<and> dev = 0 \<longrightarrow>
            iderSectorStats md dev tot start len iderRef
              = Some (h\<lparr>floppyRead := floppyRead h + len * 512\<rparr>))
         \<and> (md = 1 \<and> dev \<noteq> 0 \<longrightarrow>
            iderSectorStats md dev tot start len iderRef
              = Some (h\<lparr>cdromRead := cdromRead h + len * 2048\<rparr>))
         \<and> (md \<noteq> 1 \<and> dev = 0 \<longrightarrow>
            iderSectorStats md dev tot start len iderRef
              = Some (h\<lparr>floppyWrite := floppyWrite h + len * 512\<rparr>))
         \<and> (md \<noteq> 1 \<and> dev \<noteq> 0 \<longrightarrow>
            iderSectorStats md dev tot start len iderRef
              = Some (h\<lparr>cdromWrite := cdromWrite h + len * 2048\<rparr>))"
  using assms by (simp add: iderSectorStats_def)

theorem iderSectorStats_counters_witness:
  "iderSectorStats 1 0 2880 0 10
       (Some \<lparr>floppyRead = 7, floppyWrite = 0, cdromRead = 0, cdromWrite = 3\<rparr>)
     = Some \<lparr>floppyRead = 7 + 10 * 512, floppyWrite = 0, cdromRead = 0, cdromWrite = 3\<rparr>
   \<and> iderSectorStats 0 1 1000 0 5
       (Some \<lparr>floppyRead = 7, floppyWrite = 0, cdromRead = 0, cdromWrite = 3\<rparr>)
     = Some \<lparr>floppyRead = 7, floppyWrite = 0, cdromRead = 0, cdromWrite = 3 + 5 * 2048\<rparr>"
  using iderSectorStats_counters
          [of "Some \<lparr>floppyRead = 7, floppyWrite = 0, cdromRead = 0, cdromWrite = 3\<rparr>"
              "\<lparr>floppyRead = 7, floppyWrite = 0, cdromRead = 0, cdromWrite = 3\<rparr>" 1 0 2880 0 10]
        iderSectorStats_counters
          [of "Some \<lparr>floppyRead = 7, floppyWrite = 0, cdromRead = 0, cdromWrite = 3\<rparr>"
              "\<lparr>floppyRead = 7, floppyWrite = 0, cdromRead = 0, cdromWrite = 3\<rparr>" 0 1 1000 0 5]
  by simp

end
